theory Spec2Isabelle
  imports Main "HOL-Library.Sublist"
begin

section \<open>Python strings\<close>

text \<open>
  A Python \<open>str\<close> whose code points are below 256 is modelled as an Isabelle \<open>string\<close>,
  one \<open>char\<close> for each code point.  On these code points \<open>str.lower\<close> maps \<open>A\<close>..\<open>Z\<close> and
  U+00C0..U+00DE (without the multiplication sign U+00D7) to the code point 32 above and
  leaves every other one alone; \<open>str.strip\<close> removes from both ends the code points for
  which \<open>str.isspace\<close> holds, which are 9..13, 28..32, U+0085 and U+00A0; and the regular
  expression class \<open>\d\<close> is \<open>0\<close>..\<open>9\<close>.
\<close>

definition lower_char :: "char \<Rightarrow> char" where
  "lower_char c =
     (case map_of
             (zip (''ABCDEFGHIJKLMNOPQRSTUVWXYZ'' @
                   [CHR 0xC0, CHR 0xC1, CHR 0xC2, CHR 0xC3, CHR 0xC4, CHR 0xC5, CHR 0xC6, CHR 0xC7,
                   CHR 0xC8, CHR 0xC9, CHR 0xCA, CHR 0xCB, CHR 0xCC, CHR 0xCD, CHR 0xCE, CHR 0xCF,
                   CHR 0xD0, CHR 0xD1, CHR 0xD2, CHR 0xD3, CHR 0xD4, CHR 0xD5, CHR 0xD6, CHR 0xD8,
                   CHR 0xD9, CHR 0xDA, CHR 0xDB, CHR 0xDC, CHR 0xDD, CHR 0xDE])
                  (''abcdefghijklmnopqrstuvwxyz'' @
                   [CHR 0xE0, CHR 0xE1, CHR 0xE2, CHR 0xE3, CHR 0xE4, CHR 0xE5, CHR 0xE6, CHR 0xE7,
                   CHR 0xE8, CHR 0xE9, CHR 0xEA, CHR 0xEB, CHR 0xEC, CHR 0xED, CHR 0xEE, CHR 0xEF,
                   CHR 0xF0, CHR 0xF1, CHR 0xF2, CHR 0xF3, CHR 0xF4, CHR 0xF5, CHR 0xF6, CHR 0xF8,
                   CHR 0xF9, CHR 0xFA, CHR 0xFB, CHR 0xFC, CHR 0xFD, CHR 0xFE])) c of
        Some d \<Rightarrow> d
      | None \<Rightarrow> c)"

definition lower :: "string \<Rightarrow> string" where
  "lower s = map lower_char s"

definition isspace :: "char \<Rightarrow> bool" where
  "isspace c \<longleftrightarrow>
     c \<in> set [CHR 0x09, CHR 0x0A, CHR 0x0B, CHR 0x0C, CHR 0x0D,
              CHR 0x1C, CHR 0x1D, CHR 0x1E, CHR 0x1F, CHR '' '', CHR 0x85, CHR 0xA0]"

definition lstrip :: "string \<Rightarrow> string" where
  "lstrip s = dropWhile isspace s"

definition rstrip :: "string \<Rightarrow> string" where
  "rstrip s = rev (dropWhile isspace (rev s))"

definition strip :: "string \<Rightarrow> string" where
  "strip s = rstrip (lstrip s)"

definition isdigit :: "char \<Rightarrow> bool" where
  "isdigit c \<longleftrightarrow> c \<in> set ''0123456789''"

text \<open>\<open>s.split(sep)\<close> for a one-character separator: the result is never empty.\<close>

fun split :: "char \<Rightarrow> string \<Rightarrow> string list" where
  "split sep [] = [[]]"
| "split sep (c # cs) =
     (if c = sep then [] # split sep cs
      else (c # hd (split sep cs)) # tl (split sep cs))"

text \<open>\<open>k in s\<close> on strings: \<open>k\<close> occurs in \<open>s\<close> as a contiguous substring.\<close>

fun str_contains :: "string \<Rightarrow> string \<Rightarrow> bool" where
  "str_contains k [] \<longleftrightarrow> k = []"
| "str_contains k (c # cs) \<longleftrightarrow> prefix k (c # cs) \<or> str_contains k cs"

text \<open>Truthiness of an \<open>Optional[str]\<close>: \<open>None\<close> and the empty string are false.\<close>

fun truthy :: "string option \<Rightarrow> bool" where
  "truthy None \<longleftrightarrow> False"
| "truthy (Some s) \<longleftrightarrow> s \<noteq> []"

section \<open>helpers.py\<close>

text \<open>
  \<^verbatim>\<open>
  def sanitize_phone_number(phone):
      if not phone: return ""
      cleaned = re.sub(r'[^\d+]', '', phone)
      if '+' in cleaned:
          parts = cleaned.split('+')
          cleaned = '+' + ''.join(parts[1:])
      return cleaned
  \<close>
\<close>

text \<open>\<open>re.sub(r'[^\d+]', '', phone)\<close>: every character that is neither a digit nor \<open>+\<close> goes.\<close>

definition remove_non_digit_plus :: "string \<Rightarrow> string" where
  "remove_non_digit_plus s = filter (\<lambda>c. isdigit c \<or> c = CHR ''+'') s"

definition sanitize_phone_number :: "string option \<Rightarrow> string" where
  "sanitize_phone_number phone =
     (case phone of
        None \<Rightarrow> []
      | Some p \<Rightarrow>
          if p = [] then []
          else
            let cleaned = remove_non_digit_plus p
            in if CHR ''+'' \<in> set cleaned
               then CHR ''+'' # concat (drop 1 (split (CHR ''+'') cleaned))
               else cleaned)"

text \<open>\<open>x or d\<close> for an \<open>Optional[str]\<close> \<open>x\<close>.\<close>

fun or_str :: "string option \<Rightarrow> string \<Rightarrow> string" where
  "or_str None d = d"
| "or_str (Some s) d = (if s = [] then d else s)"

section \<open>contact\_tier\_manager.py: data\<close>

datatype ContactTier = MAIN_CONTACTS | TIME_PASS | NOT_IMPORTANT

fun tier_value :: "ContactTier \<Rightarrow> string" where
  "tier_value MAIN_CONTACTS = ''main_contacts''"
| "tier_value TIME_PASS = ''time_pass_contacts''"
| "tier_value NOT_IMPORTANT = ''not_important''"

datatype error = ValueError | NameError string | ConfigurationError

text \<open>The enum constructor \<open>ContactTier(value)\<close>, which raises \<open>ValueError\<close> on any other string.\<close>

definition ContactTier_of :: "string \<Rightarrow> error + ContactTier" where
  "ContactTier_of v =
     (if v = ''main_contacts'' then Inr MAIN_CONTACTS
      else if v = ''time_pass_contacts'' then Inr TIME_PASS
      else if v = ''not_important'' then Inr NOT_IMPORTANT
      else Inl ValueError)"

record ContactSettings =
  open_and_read :: bool
  play_sound :: bool
  reply_mode :: string
  mark_as_read :: bool
  priority_level :: string

record ContactInfo =
  name :: string
  phone :: string
  tier :: ContactTier
  settings :: ContactSettings
  last_interaction :: "string option"

text \<open>
  The two JSON files, typed after the documents the code itself writes.  Every key may be
  missing (\<open>None\<close>), since the code reads each one with \<open>dict.get\<close> and a default.
\<close>

record settings_json =
  json_open_and_read :: "bool option"
  json_play_sound :: "bool option"
  json_reply_mode :: "string option"
  json_mark_as_read :: "bool option"
  json_priority_level :: "string option"

record tier_json =
  description :: "string option"
  by_name :: "string list option"
  by_phone :: "string list option"
  by_keywords :: "string list option"
  json_settings :: "settings_json option"

record default_settings_json =
  uncategorized_contacts :: "string option"
  new_contact_behavior :: "string option"
  auto_categorize :: "bool option"

record tiers_json =
  json_contact_tiers :: "(string \<rightharpoonup> tier_json) option"
  json_default_settings :: "default_settings_json option"

record templates_json =
  json_templates :: "(string \<rightharpoonup> (string \<rightharpoonup> string)) option"
  json_ai_prompts :: "(string \<rightharpoonup> string) option"

text \<open>The mutable attributes of a \<open>ContactTierManager\<close> object.\<close>

record manager =
  contact_tiers :: tiers_json
  message_templates :: templates_json
  contact_cache :: "string \<rightharpoonup> ContactInfo"

text \<open>The empty dictionary \<open>{}\<close> read as a tier entry, and \<open>d.get(key, [])\<close> on a list.\<close>

definition empty_tier :: tier_json where
  "empty_tier = \<lparr>description = None, by_name = None, by_phone = None, by_keywords = None,
                  json_settings = None\<rparr>"

fun get_list :: "'a list option \<Rightarrow> 'a list" where
  "get_list None = []"
| "get_list (Some xs) = xs"

text \<open>\<open>self.contact_tiers.get("contact_tiers", {}).get(tier.value, {})\<close>\<close>

definition tier_data_of :: "tiers_json \<Rightarrow> ContactTier \<Rightarrow> tier_json" where
  "tier_data_of cfg t =
     (case json_contact_tiers cfg of
        None \<Rightarrow> empty_tier
      | Some tiers \<Rightarrow> (case tiers (tier_value t) of None \<Rightarrow> empty_tier | Some d \<Rightarrow> d))"

text \<open>The configuration that \<open>_load_contact_tiers\<close> writes when the file does not exist.\<close>

definition default_config :: tiers_json where
  "default_config =
     \<lparr>json_contact_tiers = Some
        [''main_contacts'' \<mapsto>
           \<lparr>description = Some ''VIP contacts - Full attention with notifications'',
            by_name = Some [], by_phone = Some [], by_keywords = None,
            json_settings = Some
              \<lparr>json_open_and_read = Some True, json_play_sound = Some True,
               json_reply_mode = Some ''informative_ai'', json_mark_as_read = Some True,
               json_priority_level = Some ''high''\<rparr>\<rparr>,
         ''time_pass_contacts'' \<mapsto>
           \<lparr>description = Some ''Casual contacts - Basic auto-replies'',
            by_name = Some [], by_phone = Some [], by_keywords = None,
            json_settings = Some
              \<lparr>json_open_and_read = Some False, json_play_sound = Some False,
               json_reply_mode = Some ''template_basic'', json_mark_as_read = Some True,
               json_priority_level = Some ''medium''\<rparr>\<rparr>,
         ''not_important'' \<mapsto>
           \<lparr>description = Some ''Low priority - Log only, no replies'',
            by_name = Some [], by_phone = Some [],
            by_keywords = Some [''promotion'', ''spam'', ''offer''],
            json_settings = Some
              \<lparr>json_open_and_read = Some False, json_play_sound = Some False,
               json_reply_mode = Some ''none'', json_mark_as_read = Some False,
               json_priority_level = Some ''low''\<rparr>\<rparr>],
      json_default_settings = Some
        \<lparr>uncategorized_contacts = Some ''not_important'',
         new_contact_behavior = Some ''ask_user'',
         auto_categorize = Some False\<rparr>\<rparr>"

section \<open>contact\_tier\_manager.py: resolution\<close>

text \<open>
  \<open>_is_contact_in_tier\<close>: the stored names are lower-cased and stripped, the stored phones
  sanitised, the keywords lower-cased, all at the time of the comparison.
\<close>

definition is_contact_in_tier :: "tiers_json \<Rightarrow> string \<Rightarrow> string option \<Rightarrow> ContactTier \<Rightarrow> bool" where
  "is_contact_in_tier cfg contact_name phone_number t =
     (let tier_data = tier_data_of cfg t;
          tier_names = map (\<lambda>n. strip (lower n)) (get_list (by_name tier_data));
          tier_phones = map (\<lambda>p. sanitize_phone_number (Some p)) (get_list (by_phone tier_data));
          keywords = get_list (by_keywords tier_data)
      in if contact_name \<in> set tier_names then True
         else if (case phone_number of
                    None \<Rightarrow> False
                  | Some p \<Rightarrow> p \<noteq> [] \<and> p \<in> set tier_phones) then True
         else list_ex (\<lambda>keyword. str_contains (lower keyword) contact_name) keywords)"

text \<open>\<open>_get_tier_settings\<close>: each field read with its default.\<close>

definition get_tier_settings :: "tiers_json \<Rightarrow> ContactTier \<Rightarrow> ContactSettings" where
  "get_tier_settings cfg t =
     (let settings_data =
            (case json_settings (tier_data_of cfg t) of
               None \<Rightarrow> \<lparr>json_open_and_read = None, json_play_sound = None,
                          json_reply_mode = None, json_mark_as_read = None,
                          json_priority_level = None\<rparr>
             | Some sd \<Rightarrow> sd)
      in \<lparr>open_and_read = (case json_open_and_read settings_data of None \<Rightarrow> False | Some b \<Rightarrow> b),
          play_sound = (case json_play_sound settings_data of None \<Rightarrow> False | Some b \<Rightarrow> b),
          reply_mode = (case json_reply_mode settings_data of None \<Rightarrow> ''none'' | Some m \<Rightarrow> m),
          mark_as_read = (case json_mark_as_read settings_data of None \<Rightarrow> False | Some b \<Rightarrow> b),
          priority_level = (case json_priority_level settings_data of None \<Rightarrow> ''low'' | Some l \<Rightarrow> l)\<rparr>)"

definition tier_priority :: "ContactTier list" where
  "tier_priority = [MAIN_CONTACTS, TIME_PASS, NOT_IMPORTANT]"

text \<open>The \<open>for tier in tier_priority\<close> loop of \<open>categorize_contact\<close>, returning at the first match.\<close>

fun scan_tiers ::
  "tiers_json \<Rightarrow> string \<Rightarrow> string option \<Rightarrow> ContactTier list \<Rightarrow> (ContactTier \<times> ContactSettings) option"
where
  "scan_tiers cfg clean_name clean_phone [] = None"
| "scan_tiers cfg clean_name clean_phone (t # ts) =
     (if is_contact_in_tier cfg clean_name clean_phone t
      then Some (t, get_tier_settings cfg t)
      else scan_tiers cfg clean_name clean_phone ts)"

text \<open>
  \<open>self.contact_tiers.get("default_settings", {}).get("uncategorized_contacts", "not_important")\<close>
\<close>

definition default_tier_name :: "tiers_json \<Rightarrow> string" where
  "default_tier_name cfg =
     (case json_default_settings cfg of
        None \<Rightarrow> ''not_important''
      | Some ds \<Rightarrow> (case uncategorized_contacts ds of None \<Rightarrow> ''not_important'' | Some v \<Rightarrow> v))"

definition clean_name_of :: "string \<Rightarrow> string" where
  "clean_name_of contact_name = strip (lower contact_name)"

definition clean_phone_of :: "string option \<Rightarrow> string option" where
  "clean_phone_of phone_number =
     (if truthy phone_number then Some (sanitize_phone_number phone_number) else None)"

definition categorize_contact ::
  "tiers_json \<Rightarrow> string \<Rightarrow> string option \<Rightarrow> error + (ContactTier \<times> ContactSettings)"
where
  "categorize_contact cfg contact_name phone_number =
     (let clean_name = clean_name_of contact_name;
          clean_phone = clean_phone_of phone_number
      in case scan_tiers cfg clean_name clean_phone tier_priority of
           Some r \<Rightarrow> Inr r
         | None \<Rightarrow>
             (case ContactTier_of (default_tier_name cfg) of
                Inl e \<Rightarrow> Inl e
              | Inr default_tier \<Rightarrow> Inr (default_tier, get_tier_settings cfg default_tier)))"

section \<open>contact\_tier\_manager.py: cache, templates, mutation\<close>

text \<open>\<open>cache_key = f"{contact_name}:{phone_number or 'no_phone'}"\<close>, on the arguments as given.\<close>

definition cache_key :: "string \<Rightarrow> string option \<Rightarrow> string" where
  "cache_key contact_name phone_number = contact_name @ '':'' @ or_str phone_number ''no_phone''"

text \<open>
  \<open>get_contact_info\<close> returns its result and the manager with the cache as it leaves it.
  An exception of \<open>categorize_contact\<close> passes through and nothing is cached.
\<close>

definition get_contact_info ::
  "manager \<Rightarrow> string \<Rightarrow> string option \<Rightarrow> (error + ContactInfo) \<times> manager"
where
  "get_contact_info self contact_name phone_number =
     (let key = cache_key contact_name phone_number
      in case contact_cache self key of
           Some cached \<Rightarrow> (Inr cached, self)
         | None \<Rightarrow>
             (case categorize_contact (contact_tiers self) contact_name phone_number of
                Inl e \<Rightarrow> (Inl e, self)
              | Inr (t, s) \<Rightarrow>
                  let contact_info =
                        \<lparr>name = contact_name, phone = or_str phone_number [],
                         tier = t, settings = s, last_interaction = None\<rparr>
                  in (Inr contact_info,
                      self\<lparr>contact_cache := (contact_cache self)(key \<mapsto> contact_info)\<rparr>)))"

text \<open>
  The last line of \<open>get_reply_template\<close>:
  \<open>tier_templates.get(template_type) or tier_templates.get("default", "")\<close>.
\<close>

definition template_or_default :: "(string \<rightharpoonup> string) \<Rightarrow> string \<Rightarrow> string" where
  "template_or_default tier_templates template_type =
     or_str (tier_templates template_type)
       (case tier_templates ''default'' of None \<Rightarrow> [] | Some d \<Rightarrow> d)"

text \<open>\<open>self.message_templates.get("templates", {}).get(tier.value, {})\<close>\<close>

definition tier_templates_of :: "templates_json \<Rightarrow> ContactTier \<Rightarrow> (string \<rightharpoonup> string)" where
  "tier_templates_of tpl t =
     (case json_templates tpl of
        None \<Rightarrow> Map.empty
      | Some m \<Rightarrow> (case m (tier_value t) of None \<Rightarrow> Map.empty | Some tt \<Rightarrow> tt))"

definition get_reply_template ::
  "manager \<Rightarrow> string \<Rightarrow> string option \<Rightarrow> string \<Rightarrow> (error + string) \<times> manager"
where
  "get_reply_template self contact_name phone_number template_type =
     (case get_contact_info self contact_name phone_number of
        (Inl e, self') \<Rightarrow> (Inl e, self')
      | (Inr contact_info, self') \<Rightarrow>
          (Inr (template_or_default
                  (tier_templates_of (message_templates self') (tier contact_info))
                  template_type),
           self'))"

text \<open>
  The dictionary updates of \<open>add_contact_to_tier\<close>, before the save.  Each \<open>setdefault\<close>
  creates the missing key; the name is appended as given, the phone after sanitising, each
  only when the list does not hold it yet.
\<close>

definition add_to_config :: "tiers_json \<Rightarrow> string \<Rightarrow> string option \<Rightarrow> ContactTier \<Rightarrow> tiers_json" where
  "add_to_config cfg contact_name phone_number t =
     (let tiers = (case json_contact_tiers cfg of None \<Rightarrow> Map.empty | Some m \<Rightarrow> m);
          tier_data = (case tiers (tier_value t) of None \<Rightarrow> empty_tier | Some d \<Rightarrow> d);
          names_list = get_list (by_name tier_data);
          names_list' = (if contact_name \<in> set names_list then names_list
                         else names_list @ [contact_name]);
          tier_data' = tier_data\<lparr>by_name := Some names_list'\<rparr>;
          tier_data'' =
            (if truthy phone_number then
               let phones_list = get_list (by_phone tier_data');
                   clean_phone = sanitize_phone_number phone_number;
                   phones_list' = (if clean_phone \<in> set phones_list then phones_list
                                   else phones_list @ [clean_phone])
               in tier_data'\<lparr>by_phone := Some phones_list'\<rparr>
             else tier_data')
      in cfg\<lparr>json_contact_tiers := Some (tiers(tier_value t \<mapsto> tier_data''))\<rparr>)"

text \<open>
  \<open>add_contact_to_tier\<close>.  \<open>save_ok\<close> is the outcome of \<open>_save_contact_tiers\<close>, which writes
  the file: when the write raises, the exception becomes a \<open>ConfigurationError\<close>, the
  dictionaries keep their update and the cache entry is not removed.
\<close>

definition add_contact_to_tier ::
  "bool \<Rightarrow> manager \<Rightarrow> string \<Rightarrow> string option \<Rightarrow> ContactTier \<Rightarrow> (error + bool) \<times> manager"
where
  "add_contact_to_tier save_ok self contact_name phone_number t =
     (let self' = self\<lparr>contact_tiers := add_to_config (contact_tiers self) contact_name phone_number t\<rparr>
      in if save_ok
         then (Inr True,
               self'\<lparr>contact_cache :=
                        (contact_cache self')(cache_key contact_name phone_number := None)\<rparr>)
         else (Inl ConfigurationError, self'))"

text \<open>
  The dictionary updates of \<open>remove_contact_from_tier\<close>: \<open>list.remove\<close> deletes the first
  occurrence; a list reached through a \<open>get\<close> default is a temporary and its update is lost.
\<close>

definition remove_from_config :: "tiers_json \<Rightarrow> string \<Rightarrow> string option \<Rightarrow> ContactTier \<Rightarrow> tiers_json" where
  "remove_from_config cfg contact_name phone_number t =
     (case json_contact_tiers cfg of
        None \<Rightarrow> cfg
      | Some tiers \<Rightarrow>
          (case tiers (tier_value t) of
             None \<Rightarrow> cfg
           | Some tier_data \<Rightarrow>
               let tier_data' = tier_data\<lparr>by_name := map_option (remove1 contact_name) (by_name tier_data)\<rparr>;
                   tier_data'' =
                     (if truthy phone_number
                      then tier_data'\<lparr>by_phone :=
                             map_option (remove1 (sanitize_phone_number phone_number))
                               (by_phone tier_data')\<rparr>
                      else tier_data')
               in cfg\<lparr>json_contact_tiers := Some (tiers(tier_value t \<mapsto> tier_data''))\<rparr>))"

definition remove_contact_from_tier ::
  "bool \<Rightarrow> manager \<Rightarrow> string \<Rightarrow> string option \<Rightarrow> ContactTier \<Rightarrow> (error + bool) \<times> manager"
where
  "remove_contact_from_tier save_ok self contact_name phone_number t =
     (let self' = self\<lparr>contact_tiers :=
                        remove_from_config (contact_tiers self) contact_name phone_number t\<rparr>
      in if save_ok
         then (Inr True,
               self'\<lparr>contact_cache :=
                        (contact_cache self')(cache_key contact_name phone_number := None)\<rparr>)
         else (Inl ConfigurationError, self'))"

definition clear_contact_cache :: "manager \<Rightarrow> manager" where
  "clear_contact_cache self = self\<lparr>contact_cache := Map.empty\<rparr>"

section \<open>contact\_tier\_manager.py: statistics\<close>

record tier_counts =
  count_by_name :: nat
  count_by_phone :: nat
  count_total :: nat

text \<open>The body of the loop of \<open>get_tier_statistics\<close>: the entry stored for one tier.\<close>

definition count_tier :: "tier_json \<Rightarrow> tier_counts" where
  "count_tier tier_data =
     (let name_count = length (get_list (by_name tier_data));
          phone_count = length (get_list (by_phone tier_data))
      in \<lparr>count_by_name = name_count, count_by_phone = phone_count,
          count_total = name_count + phone_count\<rparr>)"

text \<open>Reading a name that is bound neither locally, nor in the module, nor as a builtin.\<close>

definition unbound_name :: "string \<Rightarrow> error + unit" where
  "unbound_name n = Inl (NameError n)"

text \<open>
  \<open>get_tier_statistics\<close>.  Between the loop and \<open>return stats\<close> the source has the
  expression statement \<open>s\<close> (line 521); no \<open>s\<close> is bound in the function, in the module or
  among the builtins, so evaluating it raises \<open>NameError\<close>.
\<close>

definition get_tier_statistics :: "manager \<Rightarrow> error + (string \<rightharpoonup> tier_counts)" where
  "get_tier_statistics self =
     (let tiers = (case json_contact_tiers (contact_tiers self) of None \<Rightarrow> Map.empty | Some m \<Rightarrow> m);
          stats = (\<lambda>tier_name. map_option count_tier (tiers tier_name))
      in case unbound_name ''s'' of
           Inl e \<Rightarrow> Inl e
         | Inr _ \<Rightarrow> Inr stats)"

section \<open>Notions used in the statements\<close>



text \<open>The position of a tier in the precedence order: smaller is scanned earlier.\<close>

fun precedence :: "ContactTier \<Rightarrow> nat" where
  "precedence MAIN_CONTACTS = 0"
| "precedence TIME_PASS = 1"
| "precedence NOT_IMPORTANT = 2"

text \<open>The cache key that the stored entry itself determines.\<close>

definition key_of_info :: "ContactInfo \<Rightarrow> string" where
  "key_of_info ci = name ci @ '':'' @ (if phone ci = [] then ''no_phone'' else phone ci)"

definition cache_keyed :: "(string \<rightharpoonup> ContactInfo) \<Rightarrow> bool" where
  "cache_keyed cache \<longleftrightarrow> (\<forall>k ci. cache k = Some ci \<longrightarrow> k = key_of_info ci)"

text \<open>
  The cache key as the specification words it:
  \<open>normalized_name + ":" + (normalized_phone | "no_phone")\<close>.
\<close>

definition normalized_cache_key :: "string \<Rightarrow> string option \<Rightarrow> string" where
  "normalized_cache_key contact_name phone_number =
     clean_name_of contact_name @ '':'' @
       or_str (Some (sanitize_phone_number phone_number)) ''no_phone''"

text \<open>
  Matching as the specification words it (4.4, step 2), on the arguments as the caller
  passes them: (a) the normalised name is one of the tier's names, (b) the phone is given,
  its normalised form is not empty and is one of the tier's phones, (c) a keyword of the
  tier, case-folded, is a substring of the normalised name.  Stored names and phones count
  in their normalised form.
\<close>

definition matches_by_name :: "tiers_json \<Rightarrow> string \<Rightarrow> ContactTier \<Rightarrow> bool" where
  "matches_by_name cfg contact_name t \<longleftrightarrow>
     strip (lower contact_name)
       \<in> set (map (\<lambda>n. strip (lower n)) (get_list (by_name (tier_data_of cfg t))))"

definition matches_by_phone :: "tiers_json \<Rightarrow> string option \<Rightarrow> ContactTier \<Rightarrow> bool" where
  "matches_by_phone cfg phone_number t \<longleftrightarrow>
     (case phone_number of
        None \<Rightarrow> False
      | Some p \<Rightarrow>
          sanitize_phone_number (Some p) \<noteq> [] \<and>
          sanitize_phone_number (Some p)
            \<in> set (map (\<lambda>q. sanitize_phone_number (Some q))
                     (get_list (by_phone (tier_data_of cfg t)))))"

definition matches_by_keyword :: "tiers_json \<Rightarrow> string \<Rightarrow> ContactTier \<Rightarrow> bool" where
  "matches_by_keyword cfg contact_name t \<longleftrightarrow>
     list_ex (\<lambda>k. str_contains (lower k) (strip (lower contact_name)))
       (get_list (by_keywords (tier_data_of cfg t)))"

definition rule_matches :: "tiers_json \<Rightarrow> string \<Rightarrow> string option \<Rightarrow> ContactTier \<Rightarrow> bool" where
  "rule_matches cfg contact_name phone_number t \<longleftrightarrow>
     matches_by_name cfg contact_name t \<or> matches_by_phone cfg phone_number t \<or>
     matches_by_keyword cfg contact_name t"

text \<open>The JSON object that holds all five fields of a tier's settings.\<close>

definition settings_json_of :: "ContactSettings \<Rightarrow> settings_json" where
  "settings_json_of s =
     \<lparr>json_open_and_read = Some (open_and_read s), json_play_sound = Some (play_sound s),
      json_reply_mode = Some (reply_mode s), json_mark_as_read = Some (mark_as_read s),
      json_priority_level = Some (priority_level s)\<rparr>"

section \<open>Concrete states\<close>

text \<open>
  A ruleset in which one contact is listed in all three tiers, with stored entries that are
  not in normalised form, and with \<open>time_pass_contacts\<close> as the default tier.
\<close>

definition overlap_config :: tiers_json where
  "overlap_config =
     \<lparr>json_contact_tiers = Some
        [''main_contacts'' \<mapsto>
           empty_tier\<lparr>by_name := Some [''Alice''], by_phone := Some [''+1 (555) 010-0000''],
                      json_settings := Some
                        \<lparr>json_open_and_read = Some True, json_play_sound = Some True,
                         json_reply_mode = Some ''informative_ai'',
                         json_mark_as_read = Some True, json_priority_level = Some ''high''\<rparr>\<rparr>,
         ''time_pass_contacts'' \<mapsto>
           empty_tier\<lparr>by_name := Some [''alice'', ''Bob'']\<rparr>,
         ''not_important'' \<mapsto>
           empty_tier\<lparr>by_name := Some [''alice'', '' BOB ''], by_keywords := Some [''Promo'']\<rparr>],
      json_default_settings = Some
        \<lparr>uncategorized_contacts = Some ''time_pass_contacts'',
         new_contact_behavior = None, auto_categorize = None\<rparr>\<rparr>"

text \<open>
  A ruleset in which every tier has settings of its own, none equal to the defaults of
  \<open>_get_tier_settings\<close>; names and phones are stored in forms that are not normalised, one
  name with a no-break space and an upper-case letter outside ASCII.
\<close>

definition tiered_config :: tiers_json where
  "tiered_config =
     \<lparr>json_contact_tiers = Some
        [''main_contacts'' \<mapsto>
           empty_tier\<lparr>by_name := Some [''Alice'', CHR 0xC9 # ''milie''],
                      by_phone := Some [''+1 (555) 010-0000''],
                      json_settings := Some
                        \<lparr>json_open_and_read = Some True, json_play_sound = Some True,
                         json_reply_mode = Some ''informative_ai'',
                         json_mark_as_read = Some True, json_priority_level = Some ''high''\<rparr>\<rparr>,
         ''time_pass_contacts'' \<mapsto>
           empty_tier\<lparr>by_name := Some [''alice'', '' BOB ''],
                      by_phone := Some [''555.0199''],
                      json_settings := Some
                        \<lparr>json_open_and_read = Some False, json_play_sound = Some False,
                         json_reply_mode = Some ''template_basic'',
                         json_mark_as_read = Some True, json_priority_level = Some ''medium''\<rparr>\<rparr>,
         ''not_important'' \<mapsto>
           empty_tier\<lparr>by_name := Some [''alice'', ''bob''],
                      by_phone := Some [''555-0199''],
                      by_keywords := Some [''Promo''],
                      json_settings := Some
                        \<lparr>json_open_and_read = Some True, json_play_sound = Some False,
                         json_reply_mode = Some ''none'',
                         json_mark_as_read = Some False, json_priority_level = Some ''low''\<rparr>\<rparr>],
      json_default_settings = Some
        \<lparr>uncategorized_contacts = Some ''time_pass_contacts'',
         new_contact_behavior = None, auto_categorize = None\<rparr>\<rparr>"

text \<open>Templates in which a tier has an empty named template beside a default one.\<close>

definition example_templates :: templates_json where
  "example_templates =
     \<lparr>json_templates = Some
        [''time_pass_contacts'' \<mapsto> [''default'' \<mapsto> ''Hey!'', ''greeting'' \<mapsto> ''Hello!''],
         ''not_important'' \<mapsto> [''none'' \<mapsto> '''', ''default'' \<mapsto> ''Hi'']],
      json_ai_prompts = None\<rparr>"

definition example_manager :: manager where
  "example_manager =
     \<lparr>contact_tiers = overlap_config, message_templates = example_templates,
      contact_cache = Map.empty\<rparr>"

definition tiered_manager :: manager where
  "tiered_manager =
     \<lparr>contact_tiers = tiered_config, message_templates = example_templates,
      contact_cache = Map.empty\<rparr>"

section \<open>Strings: normalisation is idempotent\<close>

lemma lower_char_idem: "lower_char (lower_char c) = lower_char c"
  unfolding lower_char_def by (auto split: option.splits if_splits)

lemma isspace_lower_char: "isspace (lower_char c) = isspace c"
  unfolding lower_char_def isspace_def by (auto split: option.splits if_splits)

lemma lower_idem: "lower (lower s) = lower s"
  by (simp add: lower_def lower_char_idem)

lemma lower_strip: "lower (strip s) = strip (lower s)"
proof -
  have c: "isspace \<circ> lower_char = isspace"
    by (rule ext) (simp add: isspace_lower_char)
  show ?thesis
    by (simp add: strip_def lstrip_def rstrip_def lower_def dropWhile_map rev_map c)
qed

lemma rstrip_decomp: "t = rstrip t @ rev (takeWhile isspace (rev t))"
proof -
  have "rstrip t @ rev (takeWhile isspace (rev t))
          = rev (takeWhile isspace (rev t) @ dropWhile isspace (rev t))"
    unfolding rstrip_def by (simp only: rev_append)
  also have "\<dots> = t" by simp
  finally show ?thesis by simp
qed

lemma lstrip_rstrip:
  assumes "t = [] \<or> \<not> isspace (hd t)"
  shows "lstrip (rstrip t) = rstrip t"
proof (cases "rstrip t = []")
  case True
  then show ?thesis by (simp add: lstrip_def)
next
  case False
  have "hd t = hd (rstrip t)"
    using False rstrip_decomp[of t] by (metis hd_append2)
  moreover have "t \<noteq> []"
    using False by (auto simp: rstrip_def)
  ultimately have "\<not> isspace (hd (rstrip t))"
    using assms by simp
  then show ?thesis
    using False unfolding lstrip_def by (cases "rstrip t") auto
qed

lemma lstrip_hd: "lstrip s = [] \<or> \<not> isspace (hd (lstrip s))"
  unfolding lstrip_def by (metis hd_dropWhile)

lemma strip_idem: "strip (strip s) = strip s"
  unfolding strip_def using lstrip_rstrip[OF lstrip_hd, of s]
  by (simp add: rstrip_def)

lemma clean_name_idem: "strip (lower (strip (lower s))) = strip (lower s)"
  by (simp add: lower_strip lower_idem strip_idem)

section \<open>sanitize\_phone\_number: shape of the result\<close>













section \<open>Resolution: scanning in precedence order\<close>










lemma scan_tiers_first:
  assumes "is_contact_in_tier cfg n p t"
    and "t \<in> set ts"
    and "\<forall>t'\<in>set (takeWhile (\<lambda>x. x \<noteq> t) ts). \<not> is_contact_in_tier cfg n p t'"
  shows "scan_tiers cfg n p ts = Some (t, get_tier_settings cfg t)"
  using assms by (induction ts) auto

lemma before_in_priority:
  "t' \<in> set (takeWhile (\<lambda>x. x \<noteq> t) tier_priority) \<Longrightarrow> precedence t' < precedence t"
  by (cases t; cases t') (auto simp: tier_priority_def)

lemma categorize_first_match:
  assumes "is_contact_in_tier cfg (clean_name_of contact_name) (clean_phone_of phone_number) t"
    and "\<forall>t'. precedence t' < precedence t \<longrightarrow>
           \<not> is_contact_in_tier cfg (clean_name_of contact_name) (clean_phone_of phone_number) t'"
  shows "categorize_contact cfg contact_name phone_number = Inr (t, get_tier_settings cfg t)"
proof -
  have "t \<in> set tier_priority" by (cases t) (simp_all add: tier_priority_def)
  then have "scan_tiers cfg (clean_name_of contact_name) (clean_phone_of phone_number) tier_priority
               = Some (t, get_tier_settings cfg t)"
    using assms before_in_priority by (intro scan_tiers_first) auto
  then show ?thesis by (simp add: categorize_contact_def)
qed

lemma name_listed_matches:
  assumes "clean_name_of contact_name \<in> set (get_list (by_name (tier_data_of cfg t))) \<or>
           clean_name_of contact_name \<in> set (map clean_name_of (get_list (by_name (tier_data_of cfg t))))"
  shows "is_contact_in_tier cfg (clean_name_of contact_name) p t"
proof -
  have "clean_name_of contact_name \<in> set (map (\<lambda>n. strip (lower n)) (get_list (by_name (tier_data_of cfg t))))"
    using assms
  proof
    assume "clean_name_of contact_name \<in> set (get_list (by_name (tier_data_of cfg t)))"
    then have "strip (lower (clean_name_of contact_name))
                 \<in> set (map (\<lambda>n. strip (lower n)) (get_list (by_name (tier_data_of cfg t))))"
      by (simp only: set_map) (rule imageI)
    then show ?thesis by (simp add: clean_name_of_def clean_name_idem)
  next
    assume "clean_name_of contact_name \<in> set (map clean_name_of (get_list (by_name (tier_data_of cfg t))))"
    then show ?thesis by (simp add: clean_name_of_def)
  qed
  then show ?thesis by (simp add: is_contact_in_tier_def)
qed

lemma scan_tiers_none:
  "\<forall>t\<in>set ts. \<not> is_contact_in_tier cfg n p t \<Longrightarrow> scan_tiers cfg n p ts = None"
  by (induction ts) auto

lemma ContactTier_of_value: "ContactTier_of (tier_value t) = Inr t"
  by (cases t) (simp_all add: ContactTier_of_def)

lemmas string_defs = lower_def lower_char_def strip_def lstrip_def rstrip_def isspace_def
  isdigit_def remove_non_digit_plus_def sanitize_phone_number_def clean_name_of_def
  clean_phone_of_def

lemmas resolve_defs = tier_data_of_def is_contact_in_tier_def get_tier_settings_def
  empty_tier_def

lemma all_tiers: "(\<forall>t. P t) \<longleftrightarrow> P MAIN_CONTACTS \<and> P TIME_PASS \<and> P NOT_IMPORTANT"
  by (metis ContactTier.exhaust)

lemma precedence_less:
  "precedence t' < precedence t \<longleftrightarrow>
     (t = TIME_PASS \<and> t' = MAIN_CONTACTS) \<or>
     (t = NOT_IMPORTANT \<and> (t' = MAIN_CONTACTS \<or> t' = TIME_PASS))"
  by (cases t; cases t') simp_all

section \<open>Mutation and cache: what each operation changes\<close>

lemma tier_value_inj: "tier_value t = tier_value t' \<longleftrightarrow> t = t'"
  by (cases t; cases t') simp_all

lemma by_name_add:
  "by_name (tier_data_of (add_to_config cfg n p t) t)
     = Some (if n \<in> set (get_list (by_name (tier_data_of cfg t)))
             then get_list (by_name (tier_data_of cfg t))
             else get_list (by_name (tier_data_of cfg t)) @ [n])"
  by (simp add: add_to_config_def tier_data_of_def Let_def split: option.splits)

lemma by_phone_add:
  "by_phone (tier_data_of (add_to_config cfg n p t) t)
     = (if truthy p
        then Some (if sanitize_phone_number p \<in> set (get_list (by_phone (tier_data_of cfg t)))
                   then get_list (by_phone (tier_data_of cfg t))
                   else get_list (by_phone (tier_data_of cfg t)) @ [sanitize_phone_number p])
        else by_phone (tier_data_of cfg t))"
  by (simp add: add_to_config_def tier_data_of_def Let_def split: option.splits)

lemma tier_data_of_add_other:
  "t' \<noteq> t \<Longrightarrow> tier_data_of (add_to_config cfg n p t) t' = tier_data_of cfg t'"
  by (simp add: add_to_config_def tier_data_of_def Let_def tier_value_inj split: option.splits)

lemma default_settings_add:
  "json_default_settings (add_to_config cfg n p t) = json_default_settings cfg"
  by (simp add: add_to_config_def Let_def)

lemma add_to_config_idem:
  "add_to_config (add_to_config cfg n p t) n p t = add_to_config cfg n p t"
  by (simp add: add_to_config_def Let_def split: option.splits)

lemma is_contact_in_tier_add_other:
  "t' \<noteq> t \<Longrightarrow> is_contact_in_tier (add_to_config cfg n p t) cn cp t' = is_contact_in_tier cfg cn cp t'"
  by (simp add: is_contact_in_tier_def tier_data_of_add_other)

lemma is_contact_in_tier_added:
  "is_contact_in_tier (add_to_config cfg n p t) (clean_name_of n) cp t"
proof -
  have "n \<in> set (get_list (by_name (tier_data_of (add_to_config cfg n p t) t)))"
    by (simp add: by_name_add)
  then have "clean_name_of n \<in> set (map (\<lambda>n. strip (lower n))
       (get_list (by_name (tier_data_of (add_to_config cfg n p t) t))))"
    unfolding clean_name_of_def set_map by (rule imageI)
  then show ?thesis by (simp add: is_contact_in_tier_def)
qed

lemma scan_tiers_finds:
  assumes "is_contact_in_tier cfg n p t"
  shows "\<exists>t'. scan_tiers cfg n p tier_priority = Some (t', get_tier_settings cfg t') \<and>
              precedence t' \<le> precedence t \<and> is_contact_in_tier cfg n p t' \<and>
              (\<forall>t''. precedence t'' < precedence t' \<longrightarrow> \<not> is_contact_in_tier cfg n p t'')"
  using assms by (cases t) (auto simp: tier_priority_def precedence_less)

lemma get_contact_info_miss:
  assumes "contact_cache self (cache_key n p) = None"
    and "categorize_contact (contact_tiers self) n p = Inr (t, s)"
  shows "get_contact_info self n p =
           (Inr \<lparr>name = n, phone = or_str p [], tier = t, settings = s, last_interaction = None\<rparr>,
            self\<lparr>contact_cache := (contact_cache self)(cache_key n p \<mapsto>
              \<lparr>name = n, phone = or_str p [], tier = t, settings = s, last_interaction = None\<rparr>)\<rparr>)"
  using assms by (simp add: get_contact_info_def Let_def)

lemma add_contact_to_tier_ok:
  "add_contact_to_tier True self n p t =
     (Inr True, self\<lparr>contact_tiers := add_to_config (contact_tiers self) n p t,
                     contact_cache := (contact_cache self)(cache_key n p := None)\<rparr>)"
  by (simp add: add_contact_to_tier_def Let_def)

lemma key_of_fresh_info:
  "key_of_info \<lparr>name = n, phone = or_str p [], tier = t, settings = s, last_interaction = None\<rparr>
     = cache_key n p"
  by (cases p) (simp_all add: key_of_info_def cache_key_def)

lemma get_contact_info_hit:
  "contact_cache self (cache_key n p) = Some ci \<Longrightarrow> get_contact_info self n p = (Inr ci, self)"
  by (simp add: get_contact_info_def Let_def)

lemma get_contact_info_cache:
  "contact_cache (snd (get_contact_info self n p)) =
     (case fst (get_contact_info self n p) of
        Inl e \<Rightarrow> contact_cache self
      | Inr ci \<Rightarrow> (contact_cache self)(cache_key n p \<mapsto> ci))"
  by (auto simp: get_contact_info_def Let_def split: option.splits sum.splits prod.splits)

lemma get_contact_info_result:
  "fst (get_contact_info self n p) = Inr ci \<Longrightarrow>
     contact_cache self (cache_key n p) = Some ci \<or>
     (contact_cache self (cache_key n p) = None \<and>
      (\<exists>t s. ci = \<lparr>name = n, phone = or_str p [], tier = t, settings = s, last_interaction = None\<rparr>))"
  by (auto simp: get_contact_info_def Let_def split: option.splits sum.splits prod.splits)

lemma get_contact_info_keeps_config:
  "contact_tiers (snd (get_contact_info self n p)) = contact_tiers self \<and>
   message_templates (snd (get_contact_info self n p)) = message_templates self"
  by (auto simp: get_contact_info_def Let_def split: option.splits sum.splits prod.splits)

lemma cache_keyed_delete: "cache_keyed c \<Longrightarrow> cache_keyed (c(k := None))"
  by (simp add: cache_keyed_def)

lemma cache_keyed_get_contact_info:
  assumes "cache_keyed (contact_cache self)"
  shows "cache_keyed (contact_cache (snd (get_contact_info self n p)))"
proof (cases "fst (get_contact_info self n p)")
  case (Inl e)
  then show ?thesis using assms by (simp add: get_contact_info_cache)
next
  case (Inr ci)
  have "key_of_info ci = cache_key n p"
    using get_contact_info_result[OF Inr] assms
    by (auto simp: key_of_fresh_info cache_keyed_def)
  then show ?thesis
    using assms Inr by (auto simp: get_contact_info_cache cache_keyed_def)
qed

lemma categorize_contact_total:
  assumes "ContactTier_of (default_tier_name cfg) = Inr d"
  shows "\<exists>t. categorize_contact cfg n p = Inr (t, get_tier_settings cfg t)"
proof (cases "\<exists>t. is_contact_in_tier cfg (clean_name_of n) (clean_phone_of p) t")
  case True
  then obtain t where "is_contact_in_tier cfg (clean_name_of n) (clean_phone_of p) t" ..
  from scan_tiers_finds[OF this] show ?thesis
    by (auto simp: categorize_contact_def)
next
  case False
  then have "scan_tiers cfg (clean_name_of n) (clean_phone_of p) tier_priority = None"
    by (intro scan_tiers_none) simp
  then show ?thesis using assms by (simp add: categorize_contact_def)
qed

lemma get_contact_info_total:
  assumes "ContactTier_of (default_tier_name (contact_tiers self)) = Inr d"
  shows "\<exists>ci. fst (get_contact_info self n p) = Inr ci"
proof (cases "contact_cache self (cache_key n p)")
  case None
  obtain t where "categorize_contact (contact_tiers self) n p
                    = Inr (t, get_tier_settings (contact_tiers self) t)"
    using categorize_contact_total[OF assms] by blast
  from get_contact_info_miss[OF None this] show ?thesis by simp
next
  case (Some ci)
  then show ?thesis by (simp add: get_contact_info_hit)
qed

lemma get_reply_template_eq:
  "fst (get_contact_info self n p) = Inr ci \<Longrightarrow>
   fst (get_reply_template self n p ty)
     = Inr (template_or_default (tier_templates_of (message_templates self) (tier ci)) ty)"
  using get_contact_info_keeps_config[of self n p]
  by (cases "get_contact_info self n p") (simp add: get_reply_template_def)

lemmas manager_defs = add_contact_to_tier_def add_to_config_def get_contact_info_def
  categorize_contact_def tier_priority_def default_tier_name_def ContactTier_of_def
  cache_key_def get_reply_template_def template_or_default_def tier_templates_of_def
  example_manager_def example_templates_def overlap_config_def Let_def

section \<open>Matching as specified, and stored entries that are not normalised\<close>

lemma rule_matches_iff:
  "rule_matches cfg contact_name phone_number t
     \<longleftrightarrow> is_contact_in_tier cfg (clean_name_of contact_name) (clean_phone_of phone_number) t"
proof (cases phone_number)
  case None
  then show ?thesis
    by (auto simp: rule_matches_def matches_by_name_def matches_by_phone_def
          matches_by_keyword_def is_contact_in_tier_def clean_name_of_def clean_phone_of_def)
next
  case (Some p)
  have e: "sanitize_phone_number (Some []) = []" by (simp add: sanitize_phone_number_def)
  show ?thesis
    unfolding Some
    by (cases "p = []")
       (auto simp: rule_matches_def matches_by_name_def matches_by_phone_def e
          matches_by_keyword_def is_contact_in_tier_def clean_name_of_def clean_phone_of_def)
qed

lemma get_tier_settings_json:
  "json_settings (tier_data_of cfg t) = Some (settings_json_of s) \<Longrightarrow> get_tier_settings cfg t = s"
  by (simp add: get_tier_settings_def settings_json_of_def)

lemma categorize_first_rule:
  assumes "rule_matches cfg contact_name phone_number t"
    and "\<forall>t'. precedence t' < precedence t \<longrightarrow> \<not> rule_matches cfg contact_name phone_number t'"
  shows "categorize_contact cfg contact_name phone_number = Inr (t, get_tier_settings cfg t)"
  using assms unfolding rule_matches_iff by (rule categorize_first_match)






lemma json_settings_add:
  "json_settings (tier_data_of (add_to_config cfg n p t) t') = json_settings (tier_data_of cfg t')"
  by (cases "t' = t")
     (simp_all add: add_to_config_def tier_data_of_def Let_def tier_value_inj empty_tier_def
        split: option.splits)

lemma get_tier_settings_add:
  "get_tier_settings (add_to_config cfg n p t) t' = get_tier_settings cfg t'"
  by (simp add: get_tier_settings_def json_settings_add)

lemmas match_defs = rule_matches_def matches_by_name_def matches_by_phone_def
  matches_by_keyword_def tier_data_of_def empty_tier_def tiered_config_def

section \<open>Claims\<close>

text \<open>
  C1.  A contact whose normalised name is among the normalised \<open>by_name\<close> entries of
  \<open>main_contacts\<close> resolves to \<open>MAIN_CONTACTS\<close>, whatever the other tiers list, and with
  the settings stored for \<open>main_contacts\<close>.  In general the tiers are scanned in the order
  \<open>MAIN_CONTACTS\<close>, \<open>TIME_PASS\<close>, \<open>NOT_IMPORTANT\<close>: the result is the first tier that
  matches by name, by phone or by keyword, with the settings stored for that tier.
\<close>

theorem main_by_name_wins:
  "(matches_by_name cfg contact_name MAIN_CONTACTS \<longrightarrow>
      categorize_contact cfg contact_name phone_number
        = Inr (MAIN_CONTACTS, get_tier_settings cfg MAIN_CONTACTS)) \<and>
   (matches_by_name cfg contact_name MAIN_CONTACTS \<and>
    json_settings (tier_data_of cfg MAIN_CONTACTS) = Some (settings_json_of s) \<longrightarrow>
      categorize_contact cfg contact_name phone_number = Inr (MAIN_CONTACTS, s)) \<and>
   (rule_matches cfg other_name other_phone t \<and>
    (\<forall>t'. precedence t' < precedence t \<longrightarrow> \<not> rule_matches cfg other_name other_phone t') \<longrightarrow>
      categorize_contact cfg other_name other_phone = Inr (t, get_tier_settings cfg t)) \<and>
   (rule_matches cfg other_name other_phone t \<and>
    (\<forall>t'. precedence t' < precedence t \<longrightarrow> \<not> rule_matches cfg other_name other_phone t') \<and>
    json_settings (tier_data_of cfg t) = Some (settings_json_of s') \<longrightarrow>
      categorize_contact cfg other_name other_phone = Inr (t, s'))"
proof -
  have main: "categorize_contact cfg contact_name phone_number
                = Inr (MAIN_CONTACTS, get_tier_settings cfg MAIN_CONTACTS)"
    if "matches_by_name cfg contact_name MAIN_CONTACTS"
  proof (rule categorize_first_rule)
    show "rule_matches cfg contact_name phone_number MAIN_CONTACTS"
      using that by (simp add: rule_matches_def)
    show "\<forall>t'. precedence t' < precedence MAIN_CONTACTS \<longrightarrow>
            \<not> rule_matches cfg contact_name phone_number t'"
      by simp
  qed
  have first: "categorize_contact cfg other_name other_phone = Inr (t, get_tier_settings cfg t)"
    if "rule_matches cfg other_name other_phone t"
      and "\<forall>t'. precedence t' < precedence t \<longrightarrow> \<not> rule_matches cfg other_name other_phone t'"
    using that by (rule categorize_first_rule)
  show ?thesis
    using main first get_tier_settings_json[of cfg MAIN_CONTACTS s]
      get_tier_settings_json[of cfg t s']
    by metis
qed

theorem main_by_name_wins_witness:
  "matches_by_name tiered_config '' ALICE '' MAIN_CONTACTS \<and>
   matches_by_name tiered_config '' ALICE '' TIME_PASS \<and>
   matches_by_name tiered_config '' ALICE '' NOT_IMPORTANT \<and>
   categorize_contact tiered_config '' ALICE '' None
     = Inr (MAIN_CONTACTS,
            \<lparr>open_and_read = True, play_sound = True, reply_mode = ''informative_ai'',
             mark_as_read = True, priority_level = ''high''\<rparr>) \<and>
   categorize_contact tiered_config (CHR 0xA0 # ''Alice'') None
     = Inr (MAIN_CONTACTS,
            \<lparr>open_and_read = True, play_sound = True, reply_mode = ''informative_ai'',
             mark_as_read = True, priority_level = ''high''\<rparr>) \<and>
   matches_by_phone tiered_config (Some ''+1-555-010-0000'') MAIN_CONTACTS \<and>
   \<not> matches_by_name tiered_config ''Zed'' MAIN_CONTACTS \<and>
   \<not> matches_by_keyword tiered_config ''Zed'' MAIN_CONTACTS \<and>
   categorize_contact tiered_config ''Zed'' (Some ''+1-555-010-0000'')
     = Inr (MAIN_CONTACTS,
            \<lparr>open_and_read = True, play_sound = True, reply_mode = ''informative_ai'',
             mark_as_read = True, priority_level = ''high''\<rparr>) \<and>
   matches_by_phone tiered_config (Some ''555 0199'') TIME_PASS \<and>
   matches_by_phone tiered_config (Some ''555 0199'') NOT_IMPORTANT \<and>
   \<not> rule_matches tiered_config ''Zed'' (Some ''555 0199'') MAIN_CONTACTS \<and>
   categorize_contact tiered_config ''Zed'' (Some ''555 0199'')
     = Inr (TIME_PASS,
            \<lparr>open_and_read = False, play_sound = False, reply_mode = ''template_basic'',
             mark_as_read = True, priority_level = ''medium''\<rparr>) \<and>
   matches_by_keyword tiered_config ''The PROMO Shop'' NOT_IMPORTANT \<and>
   \<not> matches_by_name tiered_config ''The PROMO Shop'' NOT_IMPORTANT \<and>
   \<not> rule_matches tiered_config ''The PROMO Shop'' None MAIN_CONTACTS \<and>
   \<not> rule_matches tiered_config ''The PROMO Shop'' None TIME_PASS \<and>
   categorize_contact tiered_config ''The PROMO Shop'' None
     = Inr (NOT_IMPORTANT,
            \<lparr>open_and_read = True, play_sound = False, reply_mode = ''none'',
             mark_as_read = False, priority_level = ''low''\<rparr>)"
proof -
  let ?main = "\<lparr>open_and_read = True, play_sound = True, reply_mode = ''informative_ai'',
             mark_as_read = True, priority_level = ''high''\<rparr>"
  let ?casual = "\<lparr>open_and_read = False, play_sound = False, reply_mode = ''template_basic'',
             mark_as_read = True, priority_level = ''medium''\<rparr>"
  let ?low = "\<lparr>open_and_read = True, play_sound = False, reply_mode = ''none'',
             mark_as_read = False, priority_level = ''low''\<rparr>"
  have sm: "json_settings (tier_data_of tiered_config MAIN_CONTACTS) = Some (settings_json_of ?main)"
    by (simp add: match_defs settings_json_of_def)
  have sc: "json_settings (tier_data_of tiered_config TIME_PASS) = Some (settings_json_of ?casual)"
    by (simp add: match_defs settings_json_of_def)
  have sl: "json_settings (tier_data_of tiered_config NOT_IMPORTANT) = Some (settings_json_of ?low)"
    by (simp add: match_defs settings_json_of_def)
  have a1: "matches_by_name tiered_config '' ALICE '' MAIN_CONTACTS"
    by (simp add: match_defs string_defs)
  have a2: "matches_by_name tiered_config '' ALICE '' TIME_PASS"
    by (simp add: match_defs string_defs)
  have a3: "matches_by_name tiered_config '' ALICE '' NOT_IMPORTANT"
    by (simp add: match_defs string_defs)
  have a4: "matches_by_name tiered_config (CHR 0xA0 # ''Alice'') MAIN_CONTACTS"
    by (simp add: match_defs string_defs)
  have p1: "matches_by_phone tiered_config (Some ''+1-555-010-0000'') MAIN_CONTACTS"
    by (simp add: match_defs string_defs)
  have p2: "\<not> matches_by_name tiered_config ''Zed'' MAIN_CONTACTS"
    by (simp add: match_defs string_defs)
  have p3: "\<not> matches_by_keyword tiered_config ''Zed'' MAIN_CONTACTS"
    by (simp add: match_defs string_defs)
  have q1: "matches_by_phone tiered_config (Some ''555 0199'') TIME_PASS"
    by (simp add: match_defs string_defs)
  have q2: "matches_by_phone tiered_config (Some ''555 0199'') NOT_IMPORTANT"
    by (simp add: match_defs string_defs)
  have q3: "\<not> rule_matches tiered_config ''Zed'' (Some ''555 0199'') MAIN_CONTACTS"
    by (simp add: match_defs string_defs)
  have k1: "matches_by_keyword tiered_config ''The PROMO Shop'' NOT_IMPORTANT"
    by (simp add: match_defs string_defs)
  have k2: "\<not> matches_by_name tiered_config ''The PROMO Shop'' NOT_IMPORTANT"
    by (simp add: match_defs string_defs)
  have k3: "\<not> rule_matches tiered_config ''The PROMO Shop'' None MAIN_CONTACTS"
    by (simp add: match_defs string_defs)
  have k4: "\<not> rule_matches tiered_config ''The PROMO Shop'' None TIME_PASS"
    by (simp add: match_defs string_defs)
  have r1: "categorize_contact tiered_config '' ALICE '' None = Inr (MAIN_CONTACTS, ?main)"
    using main_by_name_wins [of tiered_config "'' ALICE ''" None ?main] a1 sm by blast
  have r2: "categorize_contact tiered_config (CHR 0xA0 # ''Alice'') None = Inr (MAIN_CONTACTS, ?main)"
    using main_by_name_wins [of tiered_config "CHR 0xA0 # ''Alice''" None ?main] a4 sm by blast
  have r3: "categorize_contact tiered_config ''Zed'' (Some ''+1-555-010-0000'')
              = Inr (MAIN_CONTACTS, ?main)"
  proof -
    have "rule_matches tiered_config ''Zed'' (Some ''+1-555-010-0000'') MAIN_CONTACTS"
      using p1 by (simp add: rule_matches_def)
    moreover have "\<forall>t'. precedence t' < precedence MAIN_CONTACTS \<longrightarrow>
        \<not> rule_matches tiered_config ''Zed'' (Some ''+1-555-010-0000'') t'"
      by simp
    ultimately show ?thesis
      using main_by_name_wins [of tiered_config _ _ _ "''Zed''" "Some ''+1-555-010-0000''"
          MAIN_CONTACTS ?main] sm
      by blast
  qed
  have r4: "categorize_contact tiered_config ''Zed'' (Some ''555 0199'') = Inr (TIME_PASS, ?casual)"
  proof -
    have "rule_matches tiered_config ''Zed'' (Some ''555 0199'') TIME_PASS"
      using q1 by (simp add: rule_matches_def)
    moreover have "\<forall>t'. precedence t' < precedence TIME_PASS \<longrightarrow>
        \<not> rule_matches tiered_config ''Zed'' (Some ''555 0199'') t'"
      using q3 unfolding precedence_less by simp
    ultimately show ?thesis
      using main_by_name_wins [of tiered_config _ _ _ "''Zed''" "Some ''555 0199''"
          TIME_PASS ?casual] sc
      by blast
  qed
  have r5: "categorize_contact tiered_config ''The PROMO Shop'' None = Inr (NOT_IMPORTANT, ?low)"
  proof -
    have "rule_matches tiered_config ''The PROMO Shop'' None NOT_IMPORTANT"
      using k1 by (simp add: rule_matches_def)
    moreover have "\<forall>t'. precedence t' < precedence NOT_IMPORTANT \<longrightarrow>
        \<not> rule_matches tiered_config ''The PROMO Shop'' None t'"
      using k3 k4 unfolding precedence_less by auto
    ultimately show ?thesis
      using main_by_name_wins [of tiered_config _ _ _ "''The PROMO Shop''" None
          NOT_IMPORTANT ?low] sl
      by blast
  qed
  show ?thesis
    using a1 a2 a3 p1 p2 p3 q1 q2 q3 k1 k2 k3 k4 r1 r2 r3 r4 r5 by blast
qed

text \<open>
  C2.  A contact that matches no tier by name, by phone or by keyword resolves to the tier
  named by \<open>default_settings.uncategorized_contacts\<close>, with the settings stored for that
  tier.
\<close>

theorem unmatched_gets_default:
  assumes "\<forall>t. \<not> rule_matches cfg contact_name phone_number t"
    and "json_default_settings cfg = Some ds"
    and "uncategorized_contacts ds = Some (tier_value default_tier)"
  shows "categorize_contact cfg contact_name phone_number
           = Inr (default_tier, get_tier_settings cfg default_tier) \<and>
         (json_settings (tier_data_of cfg default_tier) = Some (settings_json_of s) \<longrightarrow>
            categorize_contact cfg contact_name phone_number = Inr (default_tier, s))"
proof -
  have "scan_tiers cfg (clean_name_of contact_name) (clean_phone_of phone_number) tier_priority = None"
    using assms(1) unfolding rule_matches_iff by (intro scan_tiers_none) simp
  moreover have "ContactTier_of (default_tier_name cfg) = Inr default_tier"
    using assms(2,3) by (simp add: default_tier_name_def ContactTier_of_value)
  ultimately have "categorize_contact cfg contact_name phone_number
           = Inr (default_tier, get_tier_settings cfg default_tier)"
    by (simp add: categorize_contact_def)
  then show ?thesis
    using get_tier_settings_json[of cfg default_tier s] by simp
qed

theorem unmatched_gets_default_witness:
  "(\<forall>t. \<not> rule_matches tiered_config ''Carol'' (Some ''555-0123'') t) \<and>
   json_default_settings tiered_config
     = Some \<lparr>uncategorized_contacts = Some ''time_pass_contacts'',
             new_contact_behavior = None, auto_categorize = None\<rparr> \<and>
   categorize_contact tiered_config ''Carol'' (Some ''555-0123'')
     = Inr (TIME_PASS,
            \<lparr>open_and_read = False, play_sound = False, reply_mode = ''template_basic'',
             mark_as_read = True, priority_level = ''medium''\<rparr>)"
proof -
  let ?casual = "\<lparr>open_and_read = False, play_sound = False, reply_mode = ''template_basic'',
             mark_as_read = True, priority_level = ''medium''\<rparr>"
  have h1: "\<forall>t. \<not> rule_matches tiered_config ''Carol'' (Some ''555-0123'') t"
    unfolding all_tiers by (simp add: match_defs string_defs)
  have h2: "json_default_settings tiered_config
     = Some \<lparr>uncategorized_contacts = Some ''time_pass_contacts'',
             new_contact_behavior = None, auto_categorize = None\<rparr>"
    by (simp add: tiered_config_def)
  have h3: "uncategorized_contacts \<lparr>uncategorized_contacts = Some ''time_pass_contacts'',
             new_contact_behavior = None, auto_categorize = None\<rparr> = Some (tier_value TIME_PASS)"
    by simp
  have sc: "json_settings (tier_data_of tiered_config TIME_PASS) = Some (settings_json_of ?casual)"
    by (simp add: match_defs settings_json_of_def)
  show ?thesis
    using unmatched_gets_default [OF h1 h2 h3, of ?casual] h1 h2 sc by blast
qed

text \<open>
  C3.  After a successful \<open>add_contact_to_tier\<close> the cache holds no entry under the key of
  the name and phone that were passed, so the next \<open>get_contact_info\<close> with the same
  arguments is computed afresh by \<open>categorize_contact\<close> on the updated ruleset.  The tier it
  reports is the first matching one in precedence order: never below the tier just added
  to, and exactly that tier when no tier of higher precedence matched the contact before;
  the settings are the ones stored for the reported tier.
\<close>

theorem add_then_query_recomputes:
  assumes "add_contact_to_tier True self contact_name phone_number t = (r, self')"
  shows "contact_cache self' (cache_key contact_name phone_number) = None \<and>
    (\<exists>t'. categorize_contact (contact_tiers self') contact_name phone_number
             = Inr (t', get_tier_settings (contact_tiers self) t') \<and>
          fst (get_contact_info self' contact_name phone_number)
             = Inr \<lparr>name = contact_name, phone = or_str phone_number [], tier = t',
                    settings = get_tier_settings (contact_tiers self) t',
                    last_interaction = None\<rparr> \<and>
          precedence t' \<le> precedence t \<and>
          ((\<forall>t''. precedence t'' < precedence t \<longrightarrow>
              \<not> rule_matches (contact_tiers self) contact_name phone_number t'') \<longrightarrow> t' = t))"
proof -
  let ?cfg' = "add_to_config (contact_tiers self) contact_name phone_number t"
  let ?cn = "clean_name_of contact_name" and ?cp = "clean_phone_of phone_number"
  have s': "self' = self\<lparr>contact_tiers := ?cfg',
                 contact_cache := (contact_cache self)(cache_key contact_name phone_number := None)\<rparr>"
    using assms by (simp add: add_contact_to_tier_ok)
  have cfg': "contact_tiers self' = ?cfg'" by (simp add: s')
  have miss: "contact_cache self' (cache_key contact_name phone_number) = None" by (simp add: s')
  obtain t' where sc: "scan_tiers ?cfg' ?cn ?cp tier_priority = Some (t', get_tier_settings ?cfg' t')"
    and le: "precedence t' \<le> precedence t"
    and m: "is_contact_in_tier ?cfg' ?cn ?cp t'"
    using scan_tiers_finds[OF is_contact_in_tier_added] by blast
  have cat: "categorize_contact (contact_tiers self') contact_name phone_number
               = Inr (t', get_tier_settings (contact_tiers self) t')"
    by (simp add: categorize_contact_def cfg' sc get_tier_settings_add)
  have q: "fst (get_contact_info self' contact_name phone_number)
             = Inr \<lparr>name = contact_name, phone = or_str phone_number [], tier = t',
                    settings = get_tier_settings (contact_tiers self) t',
                    last_interaction = None\<rparr>"
    by (simp add: get_contact_info_miss[OF miss cat])
  have top: "t' = t"
    if h: "\<forall>t''. precedence t'' < precedence t \<longrightarrow>
              \<not> rule_matches (contact_tiers self) contact_name phone_number t''"
  proof (rule ccontr)
    assume ne: "t' \<noteq> t"
    then have "precedence t' < precedence t" using le by (cases t; cases t') simp_all
    moreover have "is_contact_in_tier (contact_tiers self) ?cn ?cp t'"
      using m is_contact_in_tier_add_other[OF ne] by simp
    ultimately show False using h unfolding rule_matches_iff by blast
  qed
  show ?thesis using miss cat q le top by blast
qed

theorem add_then_query_recomputes_witness:
  "fst (get_contact_info tiered_manager ''Carol'' None)
     = Inr \<lparr>name = ''Carol'', phone = [], tier = TIME_PASS,
            settings = \<lparr>open_and_read = False, play_sound = False,
                        reply_mode = ''template_basic'', mark_as_read = True,
                        priority_level = ''medium''\<rparr>,
            last_interaction = None\<rparr> \<and>
   \<not> rule_matches tiered_config ''Carol'' None MAIN_CONTACTS \<and>
   \<not> rule_matches tiered_config ''Carol'' None TIME_PASS \<and>
   fst (add_contact_to_tier True (snd (get_contact_info tiered_manager ''Carol'' None))
          ''Carol'' None NOT_IMPORTANT) = Inr True \<and>
   fst (get_contact_info
          (snd (add_contact_to_tier True (snd (get_contact_info tiered_manager ''Carol'' None))
                  ''Carol'' None NOT_IMPORTANT)) ''Carol'' None)
     = Inr \<lparr>name = ''Carol'', phone = [], tier = NOT_IMPORTANT,
            settings = \<lparr>open_and_read = True, play_sound = False, reply_mode = ''none'',
                        mark_as_read = False, priority_level = ''low''\<rparr>,
            last_interaction = None\<rparr>"
proof -
  let ?m1 = "snd (get_contact_info tiered_manager ''Carol'' None)"
  let ?m2 = "snd (add_contact_to_tier True ?m1 ''Carol'' None NOT_IMPORTANT)"
  have n1: "\<not> rule_matches tiered_config ''Carol'' None MAIN_CONTACTS"
    by (simp add: match_defs string_defs)
  have n2: "\<not> rule_matches tiered_config ''Carol'' None TIME_PASS"
    by (simp add: match_defs string_defs)
  have n3: "\<not> rule_matches tiered_config ''Carol'' None NOT_IMPORTANT"
    by (simp add: match_defs string_defs)
  have cat: "categorize_contact tiered_config ''Carol'' None
               = Inr (TIME_PASS, get_tier_settings tiered_config TIME_PASS)"
    using n1 n2 n3 unfolding rule_matches_iff
    by (simp add: categorize_contact_def tier_priority_def default_tier_name_def
          ContactTier_of_def tiered_config_def)
  have sc: "get_tier_settings tiered_config TIME_PASS
              = \<lparr>open_and_read = False, play_sound = False, reply_mode = ''template_basic'',
                 mark_as_read = True, priority_level = ''medium''\<rparr>"
    by (simp add: get_tier_settings_def match_defs)
  have sl: "get_tier_settings tiered_config NOT_IMPORTANT
              = \<lparr>open_and_read = True, play_sound = False, reply_mode = ''none'',
                 mark_as_read = False, priority_level = ''low''\<rparr>"
    by (simp add: get_tier_settings_def match_defs)
  have q1: "fst (get_contact_info tiered_manager ''Carol'' None)
     = Inr \<lparr>name = ''Carol'', phone = [], tier = TIME_PASS,
            settings = \<lparr>open_and_read = False, play_sound = False,
                        reply_mode = ''template_basic'', mark_as_read = True,
                        priority_level = ''medium''\<rparr>,
            last_interaction = None\<rparr>"
    by (simp add: get_contact_info_def cache_key_def tiered_manager_def cat sc Let_def)
  have cfg: "contact_tiers ?m1 = tiered_config"
    by (simp add: get_contact_info_keeps_config) (simp add: tiered_manager_def)
  have h: "\<forall>t''. precedence t'' < precedence NOT_IMPORTANT \<longrightarrow>
              \<not> rule_matches (contact_tiers ?m1) ''Carol'' None t''"
    unfolding cfg precedence_less using n1 n2 by auto
  have ok: "fst (add_contact_to_tier True ?m1 ''Carol'' None NOT_IMPORTANT) = Inr True"
    by (simp add: add_contact_to_tier_ok)
  have a: "add_contact_to_tier True ?m1 ''Carol'' None NOT_IMPORTANT
             = (fst (add_contact_to_tier True ?m1 ''Carol'' None NOT_IMPORTANT), ?m2)"
    by simp
  have o: "or_str None [] = []" by simp
  have q2: "fst (get_contact_info ?m2 ''Carol'' None)
     = Inr \<lparr>name = ''Carol'', phone = [], tier = NOT_IMPORTANT,
            settings = \<lparr>open_and_read = True, play_sound = False, reply_mode = ''none'',
                        mark_as_read = False, priority_level = ''low''\<rparr>,
            last_interaction = None\<rparr>"
  proof -
    obtain t' where
      1: "fst (get_contact_info ?m2 ''Carol'' None)
            = Inr \<lparr>name = ''Carol'', phone = or_str None [], tier = t',
                   settings = get_tier_settings (contact_tiers ?m1) t',
                   last_interaction = None\<rparr>"
      and 2: "(\<forall>t''. precedence t'' < precedence NOT_IMPORTANT \<longrightarrow>
                 \<not> rule_matches (contact_tiers ?m1) ''Carol'' None t'') \<longrightarrow> t' = NOT_IMPORTANT"
      using add_then_query_recomputes [OF a] by blast
    have "t' = NOT_IMPORTANT" using 2 h by blast
    then show ?thesis using 1 by (simp add: cfg sl)
  qed
  show ?thesis using q1 n1 n2 ok q2 by blast
qed

text \<open>
  The claim as worded, that the next query for the contact returns the tier added to and
  no stale entry, fails in two ways.  \<open>Alice\<close> is in \<open>main_contacts\<close>, is then added to
  \<open>time_pass_contacts\<close>, and still resolves to \<open>MAIN_CONTACTS\<close>.  And \<open>Carol\<close>, first
  queried with the phone written \<open>+15550100\<close> and then added to \<open>main_contacts\<close> with the
  phone written \<open>+1 555-0100\<close>, is still answered from the cache with \<open>TIME_PASS\<close> when
  queried the first way again, although the updated ruleset resolves the query to
  \<open>MAIN_CONTACTS\<close>: only the key of the arguments of the add is removed.
\<close>

theorem stale_or_higher_tier_counterexample:
  "fst (get_contact_info
          (snd (add_contact_to_tier True example_manager ''Alice'' None TIME_PASS)) ''Alice'' None)
     = Inr \<lparr>name = ''Alice'', phone = [], tier = MAIN_CONTACTS,
            settings = \<lparr>open_and_read = True, play_sound = True, reply_mode = ''informative_ai'',
                        mark_as_read = True, priority_level = ''high''\<rparr>,
            last_interaction = None\<rparr> \<and>
   fst (get_contact_info example_manager ''Carol'' (Some ''+15550100''))
     = Inr \<lparr>name = ''Carol'', phone = ''+15550100'', tier = TIME_PASS,
            settings = \<lparr>open_and_read = False, play_sound = False, reply_mode = ''none'',
                        mark_as_read = False, priority_level = ''low''\<rparr>,
            last_interaction = None\<rparr> \<and>
   fst (add_contact_to_tier True
          (snd (get_contact_info example_manager ''Carol'' (Some ''+15550100'')))
          ''Carol'' (Some ''+1 555-0100'') MAIN_CONTACTS) = Inr True \<and>
   categorize_contact
     (contact_tiers (snd (add_contact_to_tier True
          (snd (get_contact_info example_manager ''Carol'' (Some ''+15550100'')))
          ''Carol'' (Some ''+1 555-0100'') MAIN_CONTACTS)))
     ''Carol'' (Some ''+15550100'')
     = Inr (MAIN_CONTACTS,
            \<lparr>open_and_read = True, play_sound = True, reply_mode = ''informative_ai'',
             mark_as_read = True, priority_level = ''high''\<rparr>) \<and>
   fst (get_contact_info
          (snd (add_contact_to_tier True
             (snd (get_contact_info example_manager ''Carol'' (Some ''+15550100'')))
             ''Carol'' (Some ''+1 555-0100'') MAIN_CONTACTS))
          ''Carol'' (Some ''+15550100''))
     = Inr \<lparr>name = ''Carol'', phone = ''+15550100'', tier = TIME_PASS,
            settings = \<lparr>open_and_read = False, play_sound = False, reply_mode = ''none'',
                        mark_as_read = False, priority_level = ''low''\<rparr>,
            last_interaction = None\<rparr>"
proof -
  let ?ci = "\<lparr>name = ''Carol'', phone = ''+15550100'', tier = TIME_PASS,
            settings = \<lparr>open_and_read = False, play_sound = False, reply_mode = ''none'',
                        mark_as_read = False, priority_level = ''low''\<rparr>,
            last_interaction = None\<rparr>"
  let ?m1 = "snd (get_contact_info example_manager ''Carol'' (Some ''+15550100''))"
  let ?m2 = "snd (add_contact_to_tier True ?m1 ''Carol'' (Some ''+1 555-0100'') MAIN_CONTACTS)"
  have p1: "fst (get_contact_info
          (snd (add_contact_to_tier True example_manager ''Alice'' None TIME_PASS)) ''Alice'' None)
     = Inr \<lparr>name = ''Alice'', phone = [], tier = MAIN_CONTACTS,
            settings = \<lparr>open_and_read = True, play_sound = True, reply_mode = ''informative_ai'',
                        mark_as_read = True, priority_level = ''high''\<rparr>,
            last_interaction = None\<rparr>"
    by (simp add: manager_defs resolve_defs string_defs)
  have g1: "get_contact_info example_manager ''Carol'' (Some ''+15550100'')
              = (Inr ?ci, example_manager\<lparr>contact_cache := [''Carol:+15550100'' \<mapsto> ?ci]\<rparr>)"
    by (simp add: manager_defs resolve_defs string_defs)
  have m2: "?m2 = example_manager
      \<lparr>contact_tiers := add_to_config overlap_config ''Carol'' (Some ''+1 555-0100'') MAIN_CONTACTS,
       contact_cache := [''Carol:+15550100'' \<mapsto> ?ci]\<rparr>"
    unfolding g1 by (simp add: add_contact_to_tier_ok cache_key_def example_manager_def)
  have ok: "fst (add_contact_to_tier True ?m1 ''Carol'' (Some ''+1 555-0100'') MAIN_CONTACTS) = Inr True"
    by (simp add: add_contact_to_tier_ok)
  have cat: "categorize_contact (contact_tiers ?m2) ''Carol'' (Some ''+15550100'')
     = Inr (MAIN_CONTACTS,
            \<lparr>open_and_read = True, play_sound = True, reply_mode = ''informative_ai'',
             mark_as_read = True, priority_level = ''high''\<rparr>)"
    unfolding m2 by (simp add: manager_defs resolve_defs string_defs)
  have stale: "fst (get_contact_info ?m2 ''Carol'' (Some ''+15550100'')) = Inr ?ci"
    unfolding m2 by (simp add: get_contact_info_def cache_key_def Let_def)
  show ?thesis using p1 g1 ok cat stale by simp
qed

text \<open>
  C4.  Phone normalisation keeps only the digits and one leading \<open>+\<close>, preserving every
  digit of the input in order.  The code does not: the digits that stand before the first
  \<open>+\<close> are discarded together with \<open>parts[0]\<close>.  On the input \<open>1+2\<close> the result is
  \<open>+2\<close>, although the digits of the input are \<open>12\<close>.
\<close>

theorem sanitize_phone_number_drops_digits:
  "sanitize_phone_number (Some ''1+2'') = ''+2'' \<and>
   filter isdigit ''1+2'' = ''12'' \<and>
   filter isdigit (sanitize_phone_number (Some ''1+2'')) = ''2''"
  by (simp add: sanitize_phone_number_def remove_non_digit_plus_def isdigit_def)

text \<open>
  C5.  Calling \<open>add_contact_to_tier\<close> twice with the same name, phone and tier leaves the
  ruleset as one call leaves it, whatever the saves do.  After a call the name occurs in
  \<open>by_name\<close> once if it was absent and as often as before otherwise, and likewise the
  sanitised phone in \<open>by_phone\<close> when a non-empty phone was given: no entry is duplicated.
\<close>

theorem add_contact_to_tier_idempotent:
  "contact_tiers (snd (add_contact_to_tier ok2
       (snd (add_contact_to_tier ok1 self contact_name phone_number t)) contact_name phone_number t))
     = contact_tiers (snd (add_contact_to_tier ok1 self contact_name phone_number t)) \<and>
   count_list (get_list (by_name (tier_data_of
       (contact_tiers (snd (add_contact_to_tier ok1 self contact_name phone_number t))) t))) contact_name
     = max 1 (count_list (get_list (by_name (tier_data_of (contact_tiers self) t))) contact_name) \<and>
   (truthy phone_number \<longrightarrow>
    count_list (get_list (by_phone (tier_data_of
       (contact_tiers (snd (add_contact_to_tier ok1 self contact_name phone_number t))) t)))
       (sanitize_phone_number phone_number)
     = max 1 (count_list (get_list (by_phone (tier_data_of (contact_tiers self) t)))
                (sanitize_phone_number phone_number)))"
proof -
  have c: "contact_tiers (snd (add_contact_to_tier ok m n p t')) = add_to_config (contact_tiers m) n p t'"
    for ok m n p t'
    by (simp add: add_contact_to_tier_def Let_def)
  have cnt: "count_list (if x \<in> set l then l else l @ [x]) x = max 1 (count_list l x)"
    for x :: string and l
    using count_list_0_iff[of l x] by (cases "x \<in> set l") (simp_all add: max_def)
  show ?thesis
    unfolding c add_to_config_idem by (simp add: by_name_add by_phone_add cnt)
qed

theorem add_contact_to_tier_idempotent_witness:
  "truthy (Some ''+1 555-0100'') \<and>
   contact_tiers (snd (add_contact_to_tier True
       (snd (add_contact_to_tier True example_manager ''Bob'' (Some ''+1 555-0100'') TIME_PASS))
       ''Bob'' (Some ''+1 555-0100'') TIME_PASS))
     = contact_tiers (snd (add_contact_to_tier True example_manager ''Bob''
                             (Some ''+1 555-0100'') TIME_PASS)) \<and>
   by_name (tier_data_of (contact_tiers (snd (add_contact_to_tier True example_manager ''Bob''
                             (Some ''+1 555-0100'') TIME_PASS))) TIME_PASS)
     = Some [''alice'', ''Bob''] \<and>
   by_phone (tier_data_of (contact_tiers (snd (add_contact_to_tier True example_manager ''Bob''
                             (Some ''+1 555-0100'') TIME_PASS))) TIME_PASS)
     = Some [''+15550100'']"
proof -
  have "by_name (tier_data_of (contact_tiers (snd (add_contact_to_tier True example_manager ''Bob''
                             (Some ''+1 555-0100'') TIME_PASS))) TIME_PASS)
     = Some [''alice'', ''Bob'']"
    by (simp add: manager_defs resolve_defs)
  moreover have "by_phone (tier_data_of (contact_tiers (snd (add_contact_to_tier True example_manager ''Bob''
                             (Some ''+1 555-0100'') TIME_PASS))) TIME_PASS)
     = Some [''+15550100'']"
    by (simp add: manager_defs resolve_defs string_defs)
  moreover have "truthy (Some ''+1 555-0100'')" by simp
  ultimately show ?thesis
    using add_contact_to_tier_idempotent
      [of True True example_manager "''Bob''" "Some ''+1 555-0100''" TIME_PASS]
    by blast
qed

text \<open>
  C6.  What \<open>add_contact_to_tier\<close> stores.  The name goes into \<open>by_name\<close> exactly as it
  was passed, appended only when that very string is not in the list yet; the phone, only
  when it is non-empty, goes into \<open>by_phone\<close> after \<open>sanitize_phone_number\<close>, appended
  only when the sanitised string is not in the list yet.
\<close>

theorem add_contact_to_tier_stores:
  "by_name (tier_data_of (contact_tiers (snd (add_contact_to_tier ok self contact_name phone_number t))) t)
     = Some (if contact_name \<in> set (get_list (by_name (tier_data_of (contact_tiers self) t)))
             then get_list (by_name (tier_data_of (contact_tiers self) t))
             else get_list (by_name (tier_data_of (contact_tiers self) t)) @ [contact_name]) \<and>
   by_phone (tier_data_of (contact_tiers (snd (add_contact_to_tier ok self contact_name phone_number t))) t)
     = (if truthy phone_number
        then Some (if sanitize_phone_number phone_number
                        \<in> set (get_list (by_phone (tier_data_of (contact_tiers self) t)))
                   then get_list (by_phone (tier_data_of (contact_tiers self) t))
                   else get_list (by_phone (tier_data_of (contact_tiers self) t))
                          @ [sanitize_phone_number phone_number])
        else by_phone (tier_data_of (contact_tiers self) t))"
proof -
  have c: "contact_tiers (snd (add_contact_to_tier ok self contact_name phone_number t))
             = add_to_config (contact_tiers self) contact_name phone_number t"
    by (simp add: add_contact_to_tier_def Let_def)
  show ?thesis unfolding c by (simp add: by_name_add by_phone_add)
qed

theorem add_contact_to_tier_stores_witness:
  "by_name (tier_data_of (contact_tiers
      (snd (add_contact_to_tier True example_manager ''Carol'' (Some ''(555) 0100'') MAIN_CONTACTS)))
      MAIN_CONTACTS) = Some [''Alice'', ''Carol''] \<and>
   by_phone (tier_data_of (contact_tiers
      (snd (add_contact_to_tier True example_manager ''Carol'' (Some ''(555) 0100'') MAIN_CONTACTS)))
      MAIN_CONTACTS) = Some [''+1 (555) 010-0000'', ''5550100'']"
proof -
  have n: "get_list (by_name (tier_data_of (contact_tiers example_manager) MAIN_CONTACTS)) = [''Alice'']"
    by (simp add: manager_defs resolve_defs)
  have p: "get_list (by_phone (tier_data_of (contact_tiers example_manager) MAIN_CONTACTS))
             = [''+1 (555) 010-0000'']"
    by (simp add: manager_defs resolve_defs)
  have s: "sanitize_phone_number (Some ''(555) 0100'') = ''5550100''"
    by (simp add: string_defs)
  show ?thesis
    using add_contact_to_tier_stores
      [of True example_manager "''Carol''" "Some ''(555) 0100''" MAIN_CONTACTS]
    unfolding n p s by simp
qed

text \<open>
  The claim as worded, that the stored name is the lower-cased and trimmed one, fails:
  adding \<open>" Dave"\<close> stores \<open>" Dave"\<close>, not \<open>"dave"\<close>.
\<close>

theorem add_stores_name_as_given_counterexample:
  "by_name (tier_data_of (contact_tiers
      (snd (add_contact_to_tier True example_manager '' Dave'' None MAIN_CONTACTS))) MAIN_CONTACTS)
     = Some [''Alice'', '' Dave''] \<and>
   clean_name_of '' Dave'' = ''dave''"
  by (simp add: manager_defs resolve_defs string_defs)

text \<open>
  C7.  Every cache entry sits under the key built from the name and phone exactly as they
  were passed, \<open>contact_name + ":" + (phone_number or "no_phone")\<close>, and that key is the one
  its own \<open>name\<close> and \<open>phone\<close> fields give.  Every operation keeps this so;
  \<open>get_contact_info\<close> touches no other key, stores its result under that key, and a
  repeated query with the same arguments returns the stored entry and adds none.
\<close>

theorem cache_keyed_by_given_arguments:
  assumes "cache_keyed (contact_cache self)"
  shows "cache_keyed (contact_cache (snd (get_contact_info self contact_name phone_number))) \<and>
    cache_keyed (contact_cache (snd (add_contact_to_tier ok self contact_name phone_number t))) \<and>
    cache_keyed (contact_cache (snd (remove_contact_from_tier ok self contact_name phone_number t))) \<and>
    cache_keyed (contact_cache (clear_contact_cache self)) \<and>
    (\<forall>k. k \<noteq> cache_key contact_name phone_number \<longrightarrow>
       contact_cache (snd (get_contact_info self contact_name phone_number)) k = contact_cache self k) \<and>
    (\<forall>ci. fst (get_contact_info self contact_name phone_number) = Inr ci \<longrightarrow>
       contact_cache (snd (get_contact_info self contact_name phone_number))
          (cache_key contact_name phone_number) = Some ci \<and>
       key_of_info ci = cache_key contact_name phone_number \<and>
       get_contact_info (snd (get_contact_info self contact_name phone_number)) contact_name phone_number
         = (Inr ci, snd (get_contact_info self contact_name phone_number)))"
proof (intro conjI allI impI)
  show "cache_keyed (contact_cache (snd (get_contact_info self contact_name phone_number)))"
    using assms by (rule cache_keyed_get_contact_info)
  show "cache_keyed (contact_cache (snd (add_contact_to_tier ok self contact_name phone_number t)))"
    using assms by (simp add: add_contact_to_tier_def Let_def cache_keyed_delete)
  show "cache_keyed (contact_cache (snd (remove_contact_from_tier ok self contact_name phone_number t)))"
    using assms by (simp add: remove_contact_from_tier_def Let_def cache_keyed_delete)
  show "cache_keyed (contact_cache (clear_contact_cache self))"
    by (simp add: clear_contact_cache_def cache_keyed_def)
next
  fix k assume "k \<noteq> cache_key contact_name phone_number"
  then show "contact_cache (snd (get_contact_info self contact_name phone_number)) k = contact_cache self k"
    by (simp add: get_contact_info_cache split: sum.splits)
next
  fix ci assume r: "fst (get_contact_info self contact_name phone_number) = Inr ci"
  show stored: "contact_cache (snd (get_contact_info self contact_name phone_number))
          (cache_key contact_name phone_number) = Some ci"
    using r by (simp add: get_contact_info_cache)
  show "key_of_info ci = cache_key contact_name phone_number"
    using stored cache_keyed_get_contact_info[OF assms, of contact_name phone_number]
    by (simp add: cache_keyed_def)
  show "get_contact_info (snd (get_contact_info self contact_name phone_number)) contact_name phone_number
         = (Inr ci, snd (get_contact_info self contact_name phone_number))"
    using stored by (rule get_contact_info_hit)
qed

theorem cache_keyed_by_given_arguments_witness:
  "cache_keyed (contact_cache example_manager) \<and>
   cache_keyed (contact_cache (snd (get_contact_info example_manager ''Bob'' (Some ''555 0100'')))) \<and>
   contact_cache (snd (get_contact_info example_manager ''Bob'' (Some ''555 0100'')))
     ''Bob:555 0100''
     = Some \<lparr>name = ''Bob'', phone = ''555 0100'', tier = TIME_PASS,
             settings = get_tier_settings overlap_config TIME_PASS, last_interaction = None\<rparr>"
proof -
  have e: "cache_keyed (contact_cache example_manager)"
    by (simp add: example_manager_def cache_keyed_def)
  have q: "fst (get_contact_info example_manager ''Bob'' (Some ''555 0100''))
     = Inr \<lparr>name = ''Bob'', phone = ''555 0100'', tier = TIME_PASS,
             settings = get_tier_settings overlap_config TIME_PASS, last_interaction = None\<rparr>"
    by (simp add: manager_defs resolve_defs string_defs)
  have k: "cache_key ''Bob'' (Some ''555 0100'') = ''Bob:555 0100''"
    by (simp add: cache_key_def)
  show ?thesis
    using cache_keyed_by_given_arguments [OF e, of "''Bob''" "Some ''555 0100''" True MAIN_CONTACTS]
      e q unfolding k by blast
qed

text \<open>
  The claim as worded, that the key is made of the normalised name and phone so that two
  queries with the same normalised identity share one entry, fails: \<open>Bob\<close> and \<open>bob\<close>
  have the same normalised key and get two entries.
\<close>

theorem cache_key_not_normalized_counterexample:
  "contact_cache (snd (get_contact_info (snd (get_contact_info example_manager ''Bob'' None))
                         ''bob'' None)) ''Bob:no_phone''
     = Some \<lparr>name = ''Bob'', phone = [], tier = TIME_PASS,
             settings = \<lparr>open_and_read = False, play_sound = False, reply_mode = ''none'',
                         mark_as_read = False, priority_level = ''low''\<rparr>,
             last_interaction = None\<rparr> \<and>
   contact_cache (snd (get_contact_info (snd (get_contact_info example_manager ''Bob'' None))
                         ''bob'' None)) ''bob:no_phone''
     = Some \<lparr>name = ''bob'', phone = [], tier = TIME_PASS,
             settings = \<lparr>open_and_read = False, play_sound = False, reply_mode = ''none'',
                         mark_as_read = False, priority_level = ''low''\<rparr>,
             last_interaction = None\<rparr> \<and>
   normalized_cache_key ''Bob'' None = ''bob:no_phone'' \<and>
   normalized_cache_key ''bob'' None = ''bob:no_phone''"
  by (simp add: manager_defs resolve_defs string_defs normalized_cache_key_def)

text \<open>
  C8.  \<open>get_tier_statistics\<close> is claimed to return the per-tier counts without raising.
  In the code every call raises \<open>NameError\<close>: the stray statement \<open>s\<close> after the loop is
  evaluated before \<open>return stats\<close> is reached, whatever the ruleset.
\<close>

theorem get_tier_statistics_raises:
  "get_tier_statistics self = Inl (NameError ''s'')"
  by (simp add: get_tier_statistics_def unbound_name_def)

text \<open>
  C9.  With a default tier that is one of the three tier keys, \<open>get_reply_template\<close> never
  fails.  It returns the named template of the resolved tier when that template is present
  and not empty; when it is absent or empty, the tier's \<open>default\<close> template; and the empty
  string when there is no \<open>default\<close> either.
\<close>

theorem get_reply_template_fallback:
  assumes "ContactTier_of (default_tier_name (contact_tiers self)) = Inr d"
  shows "\<exists>ci s. fst (get_contact_info self contact_name phone_number) = Inr ci \<and>
     fst (get_reply_template self contact_name phone_number template_type) = Inr s \<and>
     (\<forall>x. tier_templates_of (message_templates self) (tier ci) template_type = Some x \<and> x \<noteq> []
            \<longrightarrow> s = x) \<and>
     (tier_templates_of (message_templates self) (tier ci) template_type = None \<or>
      tier_templates_of (message_templates self) (tier ci) template_type = Some []
        \<longrightarrow> (\<forall>x. tier_templates_of (message_templates self) (tier ci) ''default'' = Some x
                    \<longrightarrow> s = x) \<and>
            (tier_templates_of (message_templates self) (tier ci) ''default'' = None \<longrightarrow> s = []))"
proof -
  obtain ci where ci: "fst (get_contact_info self contact_name phone_number) = Inr ci"
    using get_contact_info_total[OF assms] by blast
  show ?thesis
    using ci get_reply_template_eq[OF ci, of template_type]
    by (auto simp: template_or_default_def)
qed

theorem get_reply_template_fallback_witness:
  "ContactTier_of (default_tier_name (contact_tiers example_manager)) = Inr TIME_PASS \<and>
   fst (get_reply_template example_manager ''Bob'' None ''greeting'') = Inr ''Hello!'' \<and>
   fst (get_reply_template example_manager ''Bob'' None ''busy'') = Inr ''Hey!'' \<and>
   fst (get_reply_template example_manager ''Alice'' None ''busy'') = Inr []"
proof -
  have d: "ContactTier_of (default_tier_name (contact_tiers example_manager)) = Inr TIME_PASS"
    by (simp add: manager_defs)
  have b: "fst (get_contact_info example_manager ''Bob'' None)
     = Inr \<lparr>name = ''Bob'', phone = [], tier = TIME_PASS,
            settings = get_tier_settings overlap_config TIME_PASS, last_interaction = None\<rparr>"
    by (simp add: manager_defs resolve_defs string_defs)
  have a: "fst (get_contact_info example_manager ''Alice'' None)
     = Inr \<lparr>name = ''Alice'', phone = [], tier = MAIN_CONTACTS,
            settings = get_tier_settings overlap_config MAIN_CONTACTS, last_interaction = None\<rparr>"
    by (simp add: manager_defs resolve_defs string_defs)
  have t1: "tier_templates_of (message_templates example_manager) TIME_PASS ''greeting'' = Some ''Hello!''"
    by (simp add: manager_defs)
  have t2: "tier_templates_of (message_templates example_manager) TIME_PASS ''busy'' = None"
    by (simp add: manager_defs)
  have t3: "tier_templates_of (message_templates example_manager) TIME_PASS ''default'' = Some ''Hey!''"
    by (simp add: manager_defs)
  have t4: "tier_templates_of (message_templates example_manager) MAIN_CONTACTS ''busy'' = None"
    by (simp add: manager_defs)
  have t5: "tier_templates_of (message_templates example_manager) MAIN_CONTACTS ''default'' = None"
    by (simp add: manager_defs)
  have r1: "fst (get_reply_template example_manager ''Bob'' None ''greeting'') = Inr ''Hello!''"
    using get_reply_template_fallback [OF d, of "''Bob''" None "''greeting''"] b t1 by auto
  have r2: "fst (get_reply_template example_manager ''Bob'' None ''busy'') = Inr ''Hey!''"
    using get_reply_template_fallback [OF d, of "''Bob''" None "''busy''"] b t2 t3 by auto
  have r3: "fst (get_reply_template example_manager ''Alice'' None ''busy'') = Inr []"
    using get_reply_template_fallback [OF d, of "''Alice''" None "''busy''"] a t4 t5 by auto
  show ?thesis using d r1 r2 r3 by blast
qed

text \<open>
  The claim as worded, that a named template which is present is the one returned, fails
  for a template stored as the empty string: the \<open>or\<close> passes on to the default.
\<close>

theorem empty_named_template_counterexample:
  "fst (get_contact_info example_manager ''Promo Shop'' None)
     = Inr \<lparr>name = ''Promo Shop'', phone = [], tier = NOT_IMPORTANT,
            settings = \<lparr>open_and_read = False, play_sound = False, reply_mode = ''none'',
                        mark_as_read = False, priority_level = ''low''\<rparr>,
            last_interaction = None\<rparr> \<and>
   tier_templates_of (message_templates example_manager) NOT_IMPORTANT ''none'' = Some [] \<and>
   fst (get_reply_template example_manager ''Promo Shop'' None ''none'') = Inr ''Hi''"
  by (simp add: manager_defs resolve_defs string_defs)



end
